theory Spec2Isabelle
  imports Complex_Main "HOL-Library.Multiset" "HOL-Library.Sublist"
begin

section \<open>JavaScript values of the dashboard front end\<close>

text \<open>
  A JavaScript number is an IEEE double. Its finite values are rationals, and the
  comparisons and the sign of a difference computed by the engine agree with the exact
  ones on those rationals, so a finite number is kept as its exact rational value.
  The three special values are explicit.
\<close>

datatype jsnum = Finite rat | PosInf | NegInf | NaN

text \<open>\<open>a < b\<close> on numbers; every comparison with \<open>NaN\<close> is false.\<close>

fun num_lt :: "jsnum \<Rightarrow> jsnum \<Rightarrow> bool" where
  "num_lt NaN _ = False"
| "num_lt _ NaN = False"
| "num_lt (Finite a) (Finite b) = (a < b)"
| "num_lt (Finite _) PosInf = True"
| "num_lt (Finite _) NegInf = False"
| "num_lt PosInf _ = False"
| "num_lt NegInf NegInf = False"
| "num_lt NegInf _ = True"

definition num_gt :: "jsnum \<Rightarrow> jsnum \<Rightarrow> bool" where
  "num_gt a b = num_lt b a"

text \<open>
  \<open>a - b\<close> on numbers. The difference of two finite doubles is rounded by the engine;
  rounding never changes its sign, and the sign is all that \<open>Array.prototype.sort\<close>
  reads of it.
\<close>

fun num_sub :: "jsnum \<Rightarrow> jsnum \<Rightarrow> jsnum" where
  "num_sub NaN _ = NaN"
| "num_sub _ NaN = NaN"
| "num_sub (Finite a) (Finite b) = Finite (a - b)"
| "num_sub (Finite _) PosInf = NegInf"
| "num_sub (Finite _) NegInf = PosInf"
| "num_sub PosInf PosInf = NaN"
| "num_sub PosInf _ = PosInf"
| "num_sub NegInf NegInf = NaN"
| "num_sub NegInf _ = NegInf"

text \<open>
  The values a \<open>DataRecord\<close> holds: the scalars of decoded JSON, and \<open>undefined\<close>,
  which is what reading an absent key gives.
\<close>

datatype jsval =
    JNumber jsnum
  | JString string
  | JBoolean bool
  | JNull
  | JUndefined

datatype jstype = TNumber | TString | TBoolean | TObject | TUndefined

fun typeof :: "jsval \<Rightarrow> jstype" where
  "typeof (JNumber _) = TNumber"
| "typeof (JString _) = TString"
| "typeof (JBoolean _) = TBoolean"
| "typeof JNull = TObject"
| "typeof JUndefined = TUndefined"

text \<open>
  The library functions of the engine that the hooks call are parameters of the model:
  \<open>parseFloat\<close>, the number-to-string conversion behind \<open>String(n)\<close>,
  \<open>String.prototype.localeCompare\<close> (whose collation depends on the host locale) and
  \<open>String.prototype.toLowerCase\<close>.
\<close>

record js_engine =
  parseFloat :: "string \<Rightarrow> jsnum"
  numberToString :: "jsnum \<Rightarrow> string"
  localeCompare :: "string \<Rightarrow> string \<Rightarrow> int"
  toLowerCase :: "string \<Rightarrow> string"

text \<open>\<open>String(v)\<close>.\<close>

fun String :: "js_engine \<Rightarrow> jsval \<Rightarrow> string" where
  "String E (JNumber n) = numberToString E n"
| "String E (JString s) = s"
| "String E (JBoolean b) = (if b then ''true'' else ''false'')"
| "String E JNull = ''null''"
| "String E JUndefined = ''undefined''"

text \<open>
  \<open>haystack.includes(needle)\<close>: the needle is tried at every position of the haystack,
  from the left.
\<close>

fun starts_with :: "string \<Rightarrow> string \<Rightarrow> bool" where
  "starts_with _ [] = True"
| "starts_with [] (_ # _) = False"
| "starts_with (h # hs) (n # ns) = (h = n \<and> starts_with hs ns)"

fun str_includes :: "string \<Rightarrow> string \<Rightarrow> bool" where
  "str_includes [] needle = (needle = [])"
| "str_includes (h # hs) needle = (starts_with (h # hs) needle \<or> str_includes hs needle)"

section \<open>types/index.ts\<close>

text \<open>
  A \<open>DataRecord\<close> is an object with string keys. It is kept as the list of its own
  properties in the order \<open>Object.keys\<close> enumerates them; \<open>record[key]\<close> is
  \<open>undefined\<close> for a key the object does not have. The records are plain objects
  decoded from JSON and the keys read are column names; the properties every object
  inherits from \<open>Object.prototype\<close> (such as \<open>constructor\<close>) are not part of the model.
\<close>

type_synonym DataRecord = "(string \<times> jsval) list"

definition Object_keys :: "DataRecord \<Rightarrow> string list" where
  "Object_keys r = map fst r"

definition get_prop :: "DataRecord \<Rightarrow> string \<Rightarrow> jsval" where
  "get_prop r k = (case map_of r k of None \<Rightarrow> JUndefined | Some v \<Rightarrow> v)"

datatype sort_direction = Asc | Desc

record SortConfig =
  key :: string
  direction :: sort_direction

text \<open>
  The declared operators are the first four; \<open>OtherOperator\<close> stands for any other
  string at run time, which the \<open>switch\<close> sends to its \<open>default\<close> branch.
\<close>

datatype filter_operator = Contains | Equals | Greater | Less | OtherOperator

record FilterConfig =
  column :: string
  fvalue :: string
  operator :: filter_operator

text \<open>
  \<open>TransformationParameters\<close> is an object whose properties are all optional. It is a
  map from property names to JSON values, so that the spread \<open>{...a, ...b}\<close>, an
  assignment to a property outside the declared type and \<open>delete\<close> are what they are
  in the source.
\<close>

datatype json =
    JsonNull
  | JsonBool bool
  | JsonNumber jsnum
  | JsonString string
  | JsonArray "json list"
  | JsonObject "(string \<times> json) list"

type_synonym TransformationParameters = "string \<rightharpoonup> json"

text \<open>The truth value an \<open>if\<close> gives a property read: an absent property is \<open>undefined\<close>.\<close>

fun truthy :: "json option \<Rightarrow> bool" where
  "truthy None = False"
| "truthy (Some JsonNull) = False"
| "truthy (Some (JsonBool b)) = b"
| "truthy (Some (JsonNumber n)) = (n \<noteq> Finite 0 \<and> n \<noteq> NaN)"
| "truthy (Some (JsonString s)) = (s \<noteq> [])"
| "truthy (Some (JsonArray _)) = True"
| "truthy (Some (JsonObject _)) = True"

record TransformationRequest =
  req_data :: "DataRecord list"
  req_transformation_type :: string
  req_parameters :: TransformationParameters

record TransformationResponse =
  res_message :: string
  res_data :: "DataRecord list"
  res_metadata :: "(string \<times> json) list"
  res_processing_time_ms :: jsnum

record LoadingState =
  isLoading :: bool
  error :: "string option"

record DashboardState =
  originalData :: "DataRecord list"
  transformedData :: "DataRecord list"
  selectedTransformation :: string
  parameters :: TransformationParameters
  loading :: LoadingState
  sortConfig :: "SortConfig option"
  filters :: "FilterConfig list"

section \<open>hooks/useDashboard: the reducer\<close>

datatype DashboardAction =
    SET_ORIGINAL_DATA "DataRecord list"
  | SET_TRANSFORMED_DATA "DataRecord list"
  | SET_TRANSFORMATION string
  | SET_PARAMETERS TransformationParameters
  | SET_LOADING LoadingState
  | SET_SORT "SortConfig option"
  | ADD_FILTER FilterConfig
  | REMOVE_FILTER nat
  | CLEAR_FILTERS
  | RESET_STATE

definition initialState :: DashboardState where
  "initialState =
     \<lparr> originalData = [], transformedData = [], selectedTransformation = [],
       parameters = Map.empty, loading = \<lparr> isLoading = False, error = None \<rparr>,
       sortConfig = None, filters = [] \<rparr>"

fun dashboardReducer :: "DashboardState \<Rightarrow> DashboardAction \<Rightarrow> DashboardState" where
  "dashboardReducer state (SET_ORIGINAL_DATA payload) = state\<lparr> originalData := payload \<rparr>"
| "dashboardReducer state (SET_TRANSFORMED_DATA payload) = state\<lparr> transformedData := payload \<rparr>"
| "dashboardReducer state (SET_TRANSFORMATION payload) =
     state\<lparr> selectedTransformation := payload, parameters := Map.empty \<rparr>"
| "dashboardReducer state (SET_PARAMETERS payload) =
     state\<lparr> parameters := parameters state ++ payload \<rparr>"
| "dashboardReducer state (SET_LOADING payload) = state\<lparr> loading := payload \<rparr>"
| "dashboardReducer state (SET_SORT payload) = state\<lparr> sortConfig := payload \<rparr>"
| "dashboardReducer state (ADD_FILTER payload) = state\<lparr> filters := filters state @ [payload] \<rparr>"
| "dashboardReducer state (REMOVE_FILTER payload) =
     state\<lparr> filters := map snd (filter (\<lambda>(index, _). index \<noteq> payload)
                                        (enumerate 0 (filters state))) \<rparr>"
| "dashboardReducer state CLEAR_FILTERS = state\<lparr> filters := [] \<rparr>"
| "dashboardReducer state RESET_STATE =
     \<lparr> originalData = [], transformedData = [], selectedTransformation = [],
       parameters = Map.empty, loading = \<lparr> isLoading = False, error = None \<rparr>,
       sortConfig = None, filters = [] \<rparr>"

section \<open>hooks/useDashboard: client-side sorting and filtering\<close>

text \<open>The comparator handed to \<open>sort\<close> in \<open>sortedData\<close>.\<close>

definition compare_records :: "js_engine \<Rightarrow> SortConfig \<Rightarrow> DataRecord \<Rightarrow> DataRecord \<Rightarrow> jsnum" where
  "compare_records E cfg a b =
     (let aVal = get_prop a (key cfg); bVal = get_prop b (key cfg) in
      case (aVal, bVal) of
        (JNumber x, JNumber y) \<Rightarrow>
          (if direction cfg = Asc then num_sub x y else num_sub y x)
      | (JString s, JString t) \<Rightarrow>
          Finite (of_int (if direction cfg = Asc then localeCompare E s t
                          else localeCompare E t s))
      | _ \<Rightarrow>
          (let aStr = String E aVal; bStr = String E bVal in
           Finite (of_int (if direction cfg = Asc then localeCompare E aStr bStr
                           else localeCompare E bStr aStr))))"

text \<open>
  \<open>Array.prototype.sort\<close> with a comparator: a result that is \<open>NaN\<close> counts as \<open>0\<close>,
  otherwise only the sign of the result is used. The sort is stable. The order in which
  the engine calls the comparator is its own choice; the model is the stable insertion
  sort, which puts \<open>x\<close> in front of the first element it does not come after.
\<close>

fun comes_after :: "jsnum \<Rightarrow> bool" where
  "comes_after (Finite q) = (q > 0)"
| "comes_after PosInf = True"
| "comes_after NegInf = False"
| "comes_after NaN = False"

fun insert_by :: "('a \<Rightarrow> 'a \<Rightarrow> jsnum) \<Rightarrow> 'a \<Rightarrow> 'a list \<Rightarrow> 'a list" where
  "insert_by cmp x [] = [x]"
| "insert_by cmp x (y # ys) =
     (if comes_after (cmp x y) then y # insert_by cmp x ys else x # y # ys)"

fun array_sort :: "('a \<Rightarrow> 'a \<Rightarrow> jsnum) \<Rightarrow> 'a list \<Rightarrow> 'a list" where
  "array_sort cmp [] = []"
| "array_sort cmp (x # xs) = insert_by cmp x (array_sort cmp xs)"

definition sortedData :: "js_engine \<Rightarrow> DashboardState \<Rightarrow> DataRecord list" where
  "sortedData E state =
     (case sortConfig state of
        None \<Rightarrow> transformedData state
      | Some cfg \<Rightarrow> array_sort (compare_records E cfg) (transformedData state))"

text \<open>The callback of \<open>filters.every\<close> in \<open>filteredAndSortedData\<close>, for one record.\<close>

definition filter_matches :: "js_engine \<Rightarrow> DataRecord \<Rightarrow> FilterConfig \<Rightarrow> bool" where
  "filter_matches E r f =
     (let v = get_prop r (column f); filterValue = toLowerCase E (fvalue f) in
      case operator f of
        Contains \<Rightarrow> str_includes (toLowerCase E (String E v)) filterValue
      | Equals \<Rightarrow> toLowerCase E (String E v) = filterValue
      | Greater \<Rightarrow>
          (case v of JNumber n \<Rightarrow> num_gt n (parseFloat E (fvalue f)) | _ \<Rightarrow> False)
      | Less \<Rightarrow>
          (case v of JNumber n \<Rightarrow> num_lt n (parseFloat E (fvalue f)) | _ \<Rightarrow> False)
      | OtherOperator \<Rightarrow> True)"

definition filteredAndSortedData :: "js_engine \<Rightarrow> DashboardState \<Rightarrow> DataRecord list" where
  "filteredAndSortedData E state =
     (if length (filters state) = 0 then sortedData E state
      else filter (\<lambda>r. list_all (filter_matches E r) (filters state)) (sortedData E state))"

definition availableColumns :: "DashboardState \<Rightarrow> string list" where
  "availableColumns state =
     (case transformedData state of [] \<Rightarrow> [] | firstRecord # _ \<Rightarrow> Object_keys firstRecord)"

definition numericColumns :: "DashboardState \<Rightarrow> string list" where
  "numericColumns state =
     (case originalData state of
        [] \<Rightarrow> []
      | firstRecord # _ \<Rightarrow>
          filter (\<lambda>k. typeof (get_prop firstRecord k) = TNumber) (Object_keys firstRecord))"

section \<open>App: executing a transformation and showing the counts\<close>

text \<open>
  \<open>handleExecuteTransformation\<close>. The call \<open>api.transformData\<close> goes to the server and
  gives \<open>null\<close> when it fails; it is the parameter \<open>transformData\<close>. The result is the
  request that was posted, if any, and the state after the handler.
\<close>

definition handleExecuteTransformation ::
  "(TransformationRequest \<Rightarrow> TransformationResponse option) \<Rightarrow> DashboardState
     \<Rightarrow> TransformationRequest option \<times> DashboardState" where
  "handleExecuteTransformation transformData dashboard =
     (if selectedTransformation dashboard = [] \<or> length (originalData dashboard) = 0
      then (None, dashboard)
      else
        (let apiParameters = parameters dashboard;
             apiParameters =
               (if truthy (apiParameters ''pivot_columns'')
                then (apiParameters(''columns'' := apiParameters ''pivot_columns''))
                       (''pivot_columns'' := None)
                else apiParameters);
             request = \<lparr> req_data = originalData dashboard,
                         req_transformation_type = selectedTransformation dashboard,
                         req_parameters = apiParameters \<rparr>
         in case transformData request of
              None \<Rightarrow> (Some request, dashboard)
            | Some result \<Rightarrow>
                (Some request, dashboardReducer dashboard (SET_TRANSFORMED_DATA (res_data result)))))"

text \<open>
  The properties \<open>App\<close> passes to \<open>MetadataPanel\<close>; the panel is rendered only when
  there is transformed data.
\<close>

record MetadataPanelProps =
  metadata :: "(string \<times> json) list"
  processingTime :: jsnum
  originalCount :: nat
  transformedCount :: nat

definition metadataPanel :: "DashboardState \<Rightarrow> MetadataPanelProps option" where
  "metadataPanel dashboard =
     (if length (transformedData dashboard) > 0
      then Some \<lparr> metadata = [], processingTime = Finite 0,
                   originalCount = length (originalData dashboard),
                   transformedCount = length (transformedData dashboard) \<rparr>
      else None)"

section \<open>services/api: the batch call\<close>

text \<open>
  What a failed \<open>apiClient.post\<close> throws: an axios error with the body of the response,
  if there was one, and its own message; another \<open>Error\<close>; or a value that is no
  \<open>Error\<close>.
\<close>

record ApiError =
  detail :: "string option"
  api_error :: "string option"
  api_message :: "string option"

datatype thrown = AxiosError "ApiError option" string | OtherError string | NotAnError

text \<open>\<open>a || b\<close> on optional strings: the first that is present and not empty.\<close>

definition or_else :: "string option \<Rightarrow> string option \<Rightarrow> string option" where
  "or_else a b = (case a of Some (c # cs) \<Rightarrow> a | _ \<Rightarrow> b)"

definition handleError :: "thrown \<Rightarrow> string" where
  "handleError e =
     (case e of
        AxiosError body axios_message \<Rightarrow>
          (case or_else (Option.bind body detail)
                  (or_else (Option.bind body api_error)
                     (or_else (Option.bind body api_message) (Some axios_message))) of
             Some (c # cs) \<Rightarrow> c # cs
           | _ \<Rightarrow> ''An unexpected error occurred'')
      | OtherError m \<Rightarrow> m
      | NotAnError \<Rightarrow> ''Unknown error occurred'')"

text \<open>
  \<open>ApiService.batchTransform\<close>: the requests are posted in one call and the body of the
  response is returned as it is; a failure of the call is rethrown as one \<open>Error\<close> for
  the whole batch. The server is the parameter \<open>post\<close>.
\<close>

definition batchTransform :: "('rq list \<Rightarrow> thrown + 'rs) \<Rightarrow> 'rq list \<Rightarrow> string + 'rs" where
  "batchTransform post requests =
     (case post requests of
        Inl e \<Rightarrow> Inl (handleError e)
      | Inr response_data \<Rightarrow> Inr response_data)"

section \<open>The transformation engine of the back end\<close>

text \<open>
  The Django back end is not among the sources; the definitions of this section are
  written from the specification of the engine (data model, components 4.2, 4.3, 4.5
  and 4.6) and from the examples of the README.
\<close>

text \<open>Modelled from the spec: the scalar values, records and tables of the data model.\<close>

datatype scalar = Num real | Str string | Bool bool | Null

type_synonym Row = "(string \<times> scalar) list"
type_synonym Table = "Row list"

datatype engine_error = ValidationError | ComputationError

text \<open>
  Modelled from the spec: a transformation that references a column treats its absence
  in a record as null.
\<close>

definition cell :: "Row \<Rightarrow> string \<Rightarrow> scalar" where
  "cell r c = (case map_of r c of None \<Rightarrow> Null | Some v \<Rightarrow> v)"

text \<open>
  Modelled from the spec: a column exists in a table when some record has it; the
  numeric values of a column are its values that are numbers, null and non-numeric
  values being skipped.
\<close>

definition column_exists :: "Table \<Rightarrow> string \<Rightarrow> bool" where
  "column_exists t c = list_ex (\<lambda>r. c \<in> set (map fst r)) t"

fun numeric_values :: "scalar list \<Rightarrow> real list" where
  "numeric_values [] = []"
| "numeric_values (Num x # vs) = x # numeric_values vs"
| "numeric_values (_ # vs) = numeric_values vs"

text \<open>
  Modelled from the spec: the statistics of the Aggregator (4.2), whose code is in the
  back end and not among the source files. Null and non-numeric values are skipped;
  \<open>count\<close> counts the non-null values; \<open>mean\<close> of no value and \<open>std\<close> (sample standard
  deviation) of fewer than two values are null; the other statistics have no null
  fallback and fail with a \<open>ComputationError\<close> on no value.
\<close>

datatype statistic = StatSum | StatMean | StatCount | StatMin | StatMax | StatStd

definition mean :: "real list \<Rightarrow> real" where
  "mean xs = sum_list xs / real (length xs)"

fun reduce :: "statistic \<Rightarrow> scalar list \<Rightarrow> engine_error + scalar" where
  "reduce StatCount vs = Inr (Num (real (length (filter (\<lambda>v. v \<noteq> Null) vs))))"
| "reduce StatMean vs =
     (let xs = numeric_values vs in if xs = [] then Inr Null else Inr (Num (mean xs)))"
| "reduce StatStd vs =
     (let xs = numeric_values vs in
      if length xs < 2 then Inr Null
      else Inr (Num (sqrt (sum_list (map (\<lambda>x. (x - mean xs)\<^sup>2) xs) / real (length xs - 1)))))"
| "reduce StatSum vs =
     (let xs = numeric_values vs in
      if xs = [] then Inl ComputationError else Inr (Num (sum_list xs)))"
| "reduce StatMin vs =
     (case numeric_values vs of
        [] \<Rightarrow> Inl ComputationError
      | x # xs \<Rightarrow> Inr (Num (fold min xs x)))"
| "reduce StatMax vs =
     (case numeric_values vs of
        [] \<Rightarrow> Inl ComputationError
      | x # xs \<Rightarrow> Inr (Num (fold max xs x)))"

text \<open>
  Modelled from the spec: the Aggregator (4.2), whose code is in the back end and not
  among the source files. The records are scanned top to bottom and put into the bucket
  of their group-key tuple; a new bucket goes to the end, so the buckets are emitted in
  first-seen order. An output row has the \<open>group_by\<close> columns followed by one column per
  aggregation, under the name of the aggregated column. An empty \<open>group_by\<close> and an
  aggregation column that no record has are a \<open>ValidationError\<close>.
\<close>

definition group_key :: "string list \<Rightarrow> Row \<Rightarrow> scalar list" where
  "group_key group_by r = map (cell r) group_by"

fun add_to_bucket :: "'k \<Rightarrow> 'r \<Rightarrow> ('k \<times> 'r list) list \<Rightarrow> ('k \<times> 'r list) list" where
  "add_to_bucket k r [] = [(k, [r])]"
| "add_to_bucket k r ((k', rs) # bs) =
     (if k' = k then (k', rs @ [r]) # bs else (k', rs) # add_to_bucket k r bs)"

definition buckets :: "string list \<Rightarrow> Table \<Rightarrow> (scalar list \<times> Row list) list" where
  "buckets group_by t = foldl (\<lambda>bs r. add_to_bucket (group_key group_by r) r bs) [] t"

fun reduce_columns :: "(string \<times> statistic) list \<Rightarrow> Row list \<Rightarrow> engine_error + Row" where
  "reduce_columns [] rs = Inr []"
| "reduce_columns ((c, st) # aggs) rs =
     (case reduce st (map (\<lambda>r. cell r c) rs) of
        Inl e \<Rightarrow> Inl e
      | Inr v \<Rightarrow>
          (case reduce_columns aggs rs of
             Inl e \<Rightarrow> Inl e
           | Inr row \<Rightarrow> Inr ((c, v) # row)))"

fun emit_buckets ::
  "string list \<Rightarrow> (string \<times> statistic) list \<Rightarrow> (scalar list \<times> Row list) list
     \<Rightarrow> engine_error + Table" where
  "emit_buckets group_by aggs [] = Inr []"
| "emit_buckets group_by aggs ((k, rs) # bs) =
     (case reduce_columns aggs rs of
        Inl e \<Rightarrow> Inl e
      | Inr row \<Rightarrow>
          (case emit_buckets group_by aggs bs of
             Inl e \<Rightarrow> Inl e
           | Inr rows \<Rightarrow> Inr ((zip group_by k @ row) # rows)))"

definition aggregate ::
  "Table \<Rightarrow> string list \<Rightarrow> (string \<times> statistic) list \<Rightarrow> engine_error + Table" where
  "aggregate t group_by aggregations =
     (if group_by = [] then Inl ValidationError
      else if \<not> list_all (\<lambda>(c, st). column_exists t c) aggregations then Inl ValidationError
      else emit_buckets group_by aggregations (buckets group_by t))"

text \<open>
  Modelled from the spec: first-seen order, the distinct elements of a list in the order
  of their first occurrence.
\<close>

fun first_seen :: "'a list \<Rightarrow> 'a list \<Rightarrow> 'a list" where
  "first_seen acc [] = acc"
| "first_seen acc (k # ks) = first_seen (if k \<in> set acc then acc else acc @ [k]) ks"

text \<open>
  Modelled from the spec: the Normalizer (4.3) for the method \<open>min_max\<close>; its code is
  in the back end and not among the source files. The minimum and maximum of every
  requested column are taken over its numeric values in the input table, before any
  value is rewritten; a requested column without a numeric value is a
  \<open>ValidationError\<close>; null and non-numeric values and all other columns pass through.
\<close>

definition column_range :: "Table \<Rightarrow> string \<Rightarrow> (real \<times> real) option" where
  "column_range t c =
     (case numeric_values (map (\<lambda>r. cell r c) t) of
        [] \<Rightarrow> None
      | x # xs \<Rightarrow> Some (fold min xs x, fold max xs x))"

definition min_max :: "real \<times> real \<Rightarrow> real \<Rightarrow> real" where
  "min_max bounds x =
     (case bounds of (lo, hi) \<Rightarrow> if hi = lo then 0 else (x - lo) / (hi - lo))"

definition rescale_cell :: "Table \<Rightarrow> string list \<Rightarrow> string \<times> scalar \<Rightarrow> string \<times> scalar" where
  "rescale_cell t columns kv =
     (case kv of
        (k, Num x) \<Rightarrow>
          (if k \<in> set columns
           then (case column_range t k of
                   Some bounds \<Rightarrow> (k, Num (min_max bounds x))
                 | None \<Rightarrow> (k, Num x))
           else (k, Num x))
      | _ \<Rightarrow> kv)"

definition normalize_min_max :: "Table \<Rightarrow> string list \<Rightarrow> engine_error + Table" where
  "normalize_min_max t columns =
     (if list_ex (\<lambda>c. column_range t c = None) columns then Inl ValidationError
      else Inr (map (map (rescale_cell t columns)) t))"

text \<open>
  Modelled from the spec: the Transformation Dispatcher (4.5), whose code is in the back
  end and not among the source files. The component a request is routed to is the
  parameter \<open>route\<close>. An unknown transformation type is a \<open>ValidationError\<close>; an empty
  table gives an empty result with zeroed counters; a failure of the component makes
  the call fail as a whole; on success the table comes with the two row counters (the
  key of the second one may be \<open>filtered_rows\<close> for a filter). The processing time is
  wall-clock time and is left out.
\<close>

record 'p transformation_request =
  request_data :: Table
  transformation_type :: string
  request_parameters :: 'p

record row_counters =
  original_rows :: nat
  transformed_rows :: nat

record transformation_result =
  result_data :: Table
  result_metadata :: row_counters

definition known_types :: "string list" where
  "known_types = [''aggregate'', ''filter'', ''normalize'', ''pivot'']"

definition execute ::
  "('p transformation_request \<Rightarrow> engine_error + Table) \<Rightarrow> 'p transformation_request
     \<Rightarrow> engine_error + transformation_result" where
  "execute route rq =
     (if transformation_type rq \<notin> set known_types then Inl ValidationError
      else if request_data rq = []
      then Inr \<lparr> result_data = [],
                 result_metadata = \<lparr> original_rows = 0, transformed_rows = 0 \<rparr> \<rparr>
      else
        (case route rq of
           Inl e \<Rightarrow> Inl e
         | Inr t \<Rightarrow>
             Inr \<lparr> result_data = t,
                   result_metadata = \<lparr> original_rows = length (request_data rq),
                                       transformed_rows = length t \<rparr> \<rparr>))"

text \<open>
  Modelled from the spec: the Batch Runner (4.6), whose code is in the back end and not
  among the source files. Every request goes through the Dispatcher on its own, in
  order; what the Dispatcher returns for it, a result or an error, is appended to the
  results.
\<close>

fun batch_loop ::
  "('p transformation_request \<Rightarrow> engine_error + Table) \<Rightarrow> 'p transformation_request list
     \<Rightarrow> (engine_error + transformation_result) list
     \<Rightarrow> (engine_error + transformation_result) list" where
  "batch_loop route [] results = results"
| "batch_loop route (rq # rqs) results = batch_loop route rqs (results @ [execute route rq])"

definition batch_execute ::
  "('p transformation_request \<Rightarrow> engine_error + Table) \<Rightarrow> 'p transformation_request list
     \<Rightarrow> (engine_error + transformation_result) list" where
  "batch_execute route rqs = batch_loop route rqs []"

section \<open>A concrete engine and sample data\<close>

text \<open>
  The theorems hold for every engine. Where a concrete one is needed, \<open>ascii_engine\<close>
  is used. On strings of ASCII characters its \<open>toLowerCase\<close> is that of ECMAScript. Its
  \<open>parseFloat\<close> skips leading white space and reads the longest prefix that is a decimal
  literal (sign, digits, fraction, exponent, or \<open>Infinity\<close>), giving \<open>NaN\<close> when there
  is none; the value is kept exact, where ECMAScript rounds it to a double. Its number
  printing writes the sign, the digits of the integral part and up to twenty digits of
  the fraction, which is what ECMAScript prints for integral values below \<open>10^21\<close> and
  for short fractions. Its \<open>localeCompare\<close> compares code units, one of the collations a
  host may have.
\<close>

definition is_digit :: "char \<Rightarrow> bool" where
  "is_digit c = (48 \<le> (of_char c :: nat) \<and> (of_char c :: nat) \<le> 57)"

definition is_space :: "char \<Rightarrow> bool" where
  "is_space c = ((of_char c :: nat) \<in> {9, 10, 11, 12, 13, 32})"

definition digits_value :: "string \<Rightarrow> nat" where
  "digits_value ds = foldl (\<lambda>acc c. 10 * acc + (of_char c - 48)) 0 ds"

definition lower_char :: "char \<Rightarrow> char" where
  "lower_char c =
     (if 65 \<le> (of_char c :: nat) \<and> (of_char c :: nat) \<le> 90
      then char_of ((of_char c :: nat) + 32) else c)"

fun parse_exponent :: "string \<Rightarrow> int" where
  "parse_exponent (e # rest) =
     (if e = CHR ''e'' \<or> e = CHR ''E'' then
        (case rest of
           s # ds \<Rightarrow>
             (if s = CHR ''-'' then - int (digits_value (takeWhile is_digit ds))
              else if s = CHR ''+'' then int (digits_value (takeWhile is_digit ds))
              else int (digits_value (takeWhile is_digit rest)))
         | [] \<Rightarrow> 0)
      else 0)"
| "parse_exponent [] = 0"

definition parse_decimal :: "string \<Rightarrow> jsnum" where
  "parse_decimal s =
     (let s1 = dropWhile is_space s;
          neg = (case s1 of c # _ \<Rightarrow> c = CHR ''-'' | [] \<Rightarrow> False);
          s2 = (case s1 of
                  c # r \<Rightarrow> (if c = CHR ''-'' \<or> c = CHR ''+'' then r else s1)
                | [] \<Rightarrow> s1)
      in if starts_with s2 ''Infinity'' then (if neg then NegInf else PosInf)
         else
           (let ip = takeWhile is_digit s2;
                r1 = dropWhile is_digit s2;
                fp = (case r1 of
                        c # r \<Rightarrow> (if c = CHR ''.'' then takeWhile is_digit r else [])
                      | [] \<Rightarrow> []);
                r2 = (case r1 of
                        c # r \<Rightarrow> (if c = CHR ''.'' then dropWhile is_digit r else r1)
                      | [] \<Rightarrow> r1);
                m = of_nat (digits_value ip) + of_nat (digits_value fp) / 10 ^ length fp
            in if ip = [] \<and> fp = [] then NaN
               else Finite ((if neg then - m else m) * 10 powi parse_exponent r2)))"

fun nat_digits :: "nat \<Rightarrow> nat \<Rightarrow> string" where
  "nat_digits 0 n = []"
| "nat_digits (Suc fuel) n =
     (if n < 10 then [char_of (48 + n)]
      else nat_digits fuel (n div 10) @ [char_of (48 + n mod 10)])"

fun fraction_digits :: "nat \<Rightarrow> rat \<Rightarrow> string" where
  "fraction_digits 0 q = []"
| "fraction_digits (Suc fuel) q =
     (if q = 0 then []
      else char_of (48 + nat \<lfloor>10 * q\<rfloor>)
             # fraction_digits fuel (10 * q - of_int \<lfloor>10 * q\<rfloor>))"

definition print_decimal :: "jsnum \<Rightarrow> string" where
  "print_decimal n =
     (case n of
        NaN \<Rightarrow> ''NaN''
      | PosInf \<Rightarrow> ''Infinity''
      | NegInf \<Rightarrow> ''-Infinity''
      | Finite q \<Rightarrow>
          (let a = \<bar>q\<bar>; whole = nat \<lfloor>a\<rfloor>; rest = a - of_int \<lfloor>a\<rfloor> in
           (if q < 0 then ''-'' else []) @ nat_digits (Suc whole) whole @
           (if rest = 0 then [] else CHR ''.'' # fraction_digits 20 rest)))"

fun compare_units :: "string \<Rightarrow> string \<Rightarrow> int" where
  "compare_units [] [] = 0"
| "compare_units [] (_ # _) = - 1"
| "compare_units (_ # _) [] = 1"
| "compare_units (a # as) (b # bs) =
     (if (of_char a :: nat) < of_char b then - 1
      else if (of_char b :: nat) < of_char a then 1
      else compare_units as bs)"

definition ascii_engine :: js_engine where
  "ascii_engine =
     \<lparr> parseFloat = parse_decimal, numberToString = print_decimal,
       localeCompare = compare_units, toLowerCase = map lower_char \<rparr>"

text \<open>\<open>generateSampleData\<close> of services/api.\<close>

datatype sample_type = Sales | Users | Products | OtherSample

definition num :: "rat \<Rightarrow> jsval" where
  "num q = JNumber (Finite q)"

fun generateSampleData :: "sample_type \<Rightarrow> DataRecord list" where
  "generateSampleData Sales =
     [[(''region'', JString ''North''), (''sales'', num 100), (''product'', JString ''A''), (''quarter'', JString ''Q1'')],
      [(''region'', JString ''North''), (''sales'', num 150), (''product'', JString ''B''), (''quarter'', JString ''Q1'')],
      [(''region'', JString ''South''), (''sales'', num 200), (''product'', JString ''A''), (''quarter'', JString ''Q1'')],
      [(''region'', JString ''South''), (''sales'', num 120), (''product'', JString ''B''), (''quarter'', JString ''Q1'')],
      [(''region'', JString ''North''), (''sales'', num 180), (''product'', JString ''A''), (''quarter'', JString ''Q2'')],
      [(''region'', JString ''North''), (''sales'', num 220), (''product'', JString ''B''), (''quarter'', JString ''Q2'')],
      [(''region'', JString ''South''), (''sales'', num 160), (''product'', JString ''A''), (''quarter'', JString ''Q2'')],
      [(''region'', JString ''South''), (''sales'', num 190), (''product'', JString ''B''), (''quarter'', JString ''Q2'')]]"
| "generateSampleData Users =
     [[(''name'', JString ''Alice''), (''age'', num 30), (''city'', JString ''New York''), (''score'', num 85)],
      [(''name'', JString ''Bob''), (''age'', num 25), (''city'', JString ''Los Angeles''), (''score'', num 92)],
      [(''name'', JString ''Charlie''), (''age'', num 35), (''city'', JString ''New York''), (''score'', num 78)],
      [(''name'', JString ''Diana''), (''age'', num 28), (''city'', JString ''Chicago''), (''score'', num 88)],
      [(''name'', JString ''Eve''), (''age'', num 32), (''city'', JString ''Los Angeles''), (''score'', num 95)],
      [(''name'', JString ''Frank''), (''age'', num 29), (''city'', JString ''New York''), (''score'', num 82)]]"
| "generateSampleData Products =
     [[(''name'', JString ''Product A''), (''price'', num 100), (''quantity'', num 10), (''category'', JString ''Electronics'')],
      [(''name'', JString ''Product B''), (''price'', num 200), (''quantity'', num 5), (''category'', JString ''Electronics'')],
      [(''name'', JString ''Product C''), (''price'', num 150), (''quantity'', num 8), (''category'', JString ''Clothing'')],
      [(''name'', JString ''Product D''), (''price'', num 80), (''quantity'', num 15), (''category'', JString ''Clothing'')],
      [(''name'', JString ''Product E''), (''price'', num 300), (''quantity'', num 3), (''category'', JString ''Electronics'')]]"
| "generateSampleData OtherSample = []"

text \<open>\<open>handleLoadSample\<close> of \<open>App\<close>.\<close>

definition handleLoadSample :: "sample_type \<Rightarrow> DashboardState \<Rightarrow> DashboardState" where
  "handleLoadSample ty dashboard =
     (let sampleData = generateSampleData ty in
      dashboardReducer (dashboardReducer dashboard (SET_ORIGINAL_DATA sampleData))
        (SET_TRANSFORMED_DATA sampleData))"

text \<open>
  The user sample, sorted by age downwards and filtered to the people over 28 whose
  city contains \<open>NEW\<close>.
\<close>

definition users_over_28_in_new :: DashboardState where
  "users_over_28_in_new =
     (handleLoadSample Users initialState)
       \<lparr> sortConfig := Some \<lparr> key = ''age'', direction = Desc \<rparr>,
         filters := [\<lparr> column = ''age'', fvalue = ''28'', operator = Greater \<rparr>,
                     \<lparr> column = ''city'', fvalue = ''NEW'', operator = Contains \<rparr>] \<rparr>"

text \<open>The sales sample with a pivot chosen in the transformation panel.\<close>

definition sales_pivot :: DashboardState where
  "sales_pivot =
     dashboardReducer
       (dashboardReducer (handleLoadSample Sales initialState) (SET_TRANSFORMATION ''pivot''))
       (SET_PARAMETERS [''index'' \<mapsto> JsonString ''region'',
                        ''pivot_columns'' \<mapsto> JsonString ''product'',
                        ''values'' \<mapsto> JsonString ''sales''])"

text \<open>A table whose records do not have the same columns.\<close>

definition ragged :: DashboardState where
  "ragged =
     dashboardReducer initialState
       (SET_TRANSFORMED_DATA [[(''a'', num 1)], [(''b'', num 2)]])"

text \<open>The table of the first scenario of the specification.\<close>

definition sales_by_region :: Table where
  "sales_by_region =
     [[(''region'', Str ''North''), (''sales'', Num 100)],
      [(''region'', Str ''North''), (''sales'', Num 150)],
      [(''region'', Str ''South''), (''sales'', Num 200)],
      [(''region'', Str ''South''), (''sales'', Num 120)]]"

text \<open>A route for requests whose parameters are those of an aggregation.\<close>

definition route_aggregate ::
  "(string list \<times> (string \<times> statistic) list) transformation_request \<Rightarrow> engine_error + Table" where
  "route_aggregate rq =
     (case request_parameters rq of
        (group_by, aggregations) \<Rightarrow> aggregate (request_data rq) group_by aggregations)"

definition sum_sales_request ::
  "(string list \<times> (string \<times> statistic) list) transformation_request" where
  "sum_sales_request =
     \<lparr> request_data = sales_by_region, transformation_type = ''aggregate'',
       request_parameters = ([''region''], [(''sales'', StatSum)]) \<rparr>"

definition no_group_request ::
  "(string list \<times> (string \<times> statistic) list) transformation_request" where
  "no_group_request =
     \<lparr> request_data = sales_by_region, transformation_type = ''aggregate'',
       request_parameters = ([], [(''sales'', StatSum)]) \<rparr>"

text \<open>The column names that appear anywhere in a table.\<close>

definition column_names :: "DataRecord list \<Rightarrow> string set" where
  "column_names t = (\<Union>r \<in> set t. set (Object_keys r))"

text \<open>A server that answers every request with the two aggregated sales records.\<close>

definition aggregated_sales :: TransformationResponse where
  "aggregated_sales =
     \<lparr> res_message = ''Successfully applied aggregate transformation'',
       res_data = [[(''region'', JString ''North''), (''sales'', num 250)],
                   [(''region'', JString ''South''), (''sales'', num 320)]],
       res_metadata = [], res_processing_time_ms = Finite 0 \<rparr>"

definition aggregated_response :: "TransformationRequest \<Rightarrow> TransformationResponse option" where
  "aggregated_response request = Some aggregated_sales"

text \<open>The sales sample with the aggregation chosen, and the request it posts.\<close>

definition sales_aggregate :: DashboardState where
  "sales_aggregate =
     dashboardReducer (handleLoadSample Sales initialState) (SET_TRANSFORMATION ''aggregate'')"

definition sales_aggregate_request :: TransformationRequest where
  "sales_aggregate_request =
     \<lparr> req_data = generateSampleData Sales, req_transformation_type = ''aggregate'',
       req_parameters = Map.empty \<rparr>"

text \<open>The result of the first scenario with its counters.\<close>

definition sum_sales_result :: transformation_result where
  "sum_sales_result =
     \<lparr> result_data = [[(''region'', Str ''North''), (''sales'', Num 250)],
                      [(''region'', Str ''South''), (''sales'', Num 320)]],
       result_metadata = \<lparr> original_rows = 4, transformed_rows = 2 \<rparr> \<rparr>"

section \<open>The filter callback at run time\<close>








section \<open>Sorting keeps the records\<close>

lemma mset_insert_by: "mset (insert_by cmp x ys) = add_mset x (mset ys)"
  by (induction ys) auto

lemma mset_array_sort: "mset (array_sort cmp xs) = mset xs"
  by (induction xs) (auto simp: mset_insert_by)

text \<open>
  C10. For every list \<open>transformedData\<close> and every \<open>sortConfig\<close>, \<open>sortedData\<close> is a
  permutation of \<open>transformedData\<close>: it has the same records with the same
  multiplicities. When \<open>sortConfig\<close> is \<open>null\<close>, \<open>sortedData\<close> is \<open>transformedData\<close>
  itself.
\<close>

theorem sortedData_permutation:
  "mset (sortedData E state) = mset (transformedData state)
   \<and> (sortConfig state = None \<longrightarrow> sortedData E state = transformedData state)"
  by (simp add: sortedData_def mset_array_sort split: option.split)

theorem sortedData_permutation_witness:
  "map (\<lambda>r. get_prop r ''name'') (sortedData ascii_engine users_over_28_in_new) =
     [JString ''Charlie'', JString ''Eve'', JString ''Alice'', JString ''Frank'',
      JString ''Diana'', JString ''Bob'']
   \<and> sortConfig initialState = None
   \<and> mset (sortedData ascii_engine users_over_28_in_new)
       = mset (transformedData users_over_28_in_new)
   \<and> sortedData ascii_engine initialState = transformedData initialState"
proof -
  have order: "map (\<lambda>r. get_prop r ''name'') (sortedData ascii_engine users_over_28_in_new) =
     [JString ''Charlie'', JString ''Eve'', JString ''Alice'', JString ''Frank'',
      JString ''Diana'', JString ''Bob'']"
    by code_simp
  have unsorted: "sortConfig initialState = None"
    by (simp add: initialState_def)
  have perm: "mset (sortedData ascii_engine users_over_28_in_new)
       = mset (transformedData users_over_28_in_new)"
    using sortedData_permutation [of ascii_engine users_over_28_in_new] by (rule conjunct1)
  have same: "sortedData ascii_engine initialState = transformedData initialState"
    using sortedData_permutation [of ascii_engine initialState] unsorted by blast
  from order unsorted perm same show ?thesis by blast
qed

section \<open>Filtering\<close>

text \<open>
  C1. For every table and every list of filters, the filtered table
  (\<open>filteredAndSortedData\<close>, the only filter among the sources) is a subsequence of its
  input \<open>sortedData\<close>, so it is not longer and keeps the relative order, and every record
  it returns satisfies every filter of the list.
\<close>

theorem filteredAndSortedData_subseq:
  "subseq (filteredAndSortedData E state) (sortedData E state)
   \<and> length (filteredAndSortedData E state) \<le> length (sortedData E state)
   \<and> (\<forall>r \<in> set (filteredAndSortedData E state).
        \<forall>f \<in> set (filters state). filter_matches E r f)"
  by (auto simp: filteredAndSortedData_def list_all_iff)

theorem filteredAndSortedData_subseq_witness:
  "map (\<lambda>r. get_prop r ''name'') (filteredAndSortedData ascii_engine users_over_28_in_new) =
     [JString ''Charlie'', JString ''Alice'', JString ''Frank'']
   \<and> length (filters users_over_28_in_new) = 2
   \<and> subseq (filteredAndSortedData ascii_engine users_over_28_in_new)
        (sortedData ascii_engine users_over_28_in_new)
   \<and> length (filteredAndSortedData ascii_engine users_over_28_in_new)
        \<le> length (sortedData ascii_engine users_over_28_in_new)
   \<and> list_all (\<lambda>r. list_all (filter_matches ascii_engine r) (filters users_over_28_in_new))
        (filteredAndSortedData ascii_engine users_over_28_in_new)"
proof -
  have kept: "map (\<lambda>r. get_prop r ''name'') (filteredAndSortedData ascii_engine users_over_28_in_new) =
     [JString ''Charlie'', JString ''Alice'', JString ''Frank'']"
    by code_simp
  have two: "length (filters users_over_28_in_new) = 2"
    by (simp add: users_over_28_in_new_def)
  note inst = filteredAndSortedData_subseq [of ascii_engine users_over_28_in_new]
  have sub: "subseq (filteredAndSortedData ascii_engine users_over_28_in_new)
        (sortedData ascii_engine users_over_28_in_new)"
    by (rule inst [THEN conjunct1])
  have len: "length (filteredAndSortedData ascii_engine users_over_28_in_new)
        \<le> length (sortedData ascii_engine users_over_28_in_new)"
    by (rule inst [THEN conjunct2, THEN conjunct1])
  have sat: "list_all (\<lambda>r. list_all (filter_matches ascii_engine r) (filters users_over_28_in_new))
        (filteredAndSortedData ascii_engine users_over_28_in_new)"
    unfolding list_all_iff by (rule inst [THEN conjunct2, THEN conjunct2])
  show ?thesis
    by (intro conjI; fact)
qed




lemma starts_with_iff: "starts_with h n \<longleftrightarrow> (\<exists>post. h = n @ post)"
  by (induction h n rule: starts_with.induct) auto

lemma str_includes_iff: "str_includes h n \<longleftrightarrow> (\<exists>pre post. h = pre @ n @ post)"
proof (induction h)
  case Nil
  then show ?case by auto
next
  case (Cons c h)
  have "(\<exists>pre post. c # h = pre @ n @ post)
        \<longleftrightarrow> (\<exists>post. c # h = n @ post) \<or> (\<exists>pre post. h = pre @ n @ post)"
  proof
    assume "\<exists>pre post. c # h = pre @ n @ post"
    then obtain pre post where eq: "c # h = pre @ n @ post" by blast
    show "(\<exists>post. c # h = n @ post) \<or> (\<exists>pre post. h = pre @ n @ post)"
    proof (cases pre)
      case Nil
      with eq show ?thesis by auto
    next
      case (Cons d pre')
      with eq have "h = pre' @ n @ post" by simp
      then show ?thesis by blast
    qed
  next
    assume "(\<exists>post. c # h = n @ post) \<or> (\<exists>pre post. h = pre @ n @ post)"
    then show "\<exists>pre post. c # h = pre @ n @ post"
    proof
      assume "\<exists>post. c # h = n @ post"
      then obtain post where "c # h = [] @ n @ post" by auto
      then show ?thesis by blast
    next
      assume "\<exists>pre post. h = pre @ n @ post"
      then obtain pre post where "h = pre @ n @ post" by blast
      then have "c # h = (c # pre) @ n @ post" by simp
      then show ?thesis by blast
    qed
  qed
  with Cons.IH show ?case by (simp add: starts_with_iff)
qed

text \<open>
  C7, as the code has it. For every record and every \<open>contains\<close> filter, the filter is
  true exactly when the lower-cased filter value is a substring of the lower-cased
  string representation of the field value: the comparison ignores case.
\<close>

theorem contains_lower_cased_substring:
  assumes "operator f = Contains"
  shows "filter_matches E r f \<longleftrightarrow>
           (\<exists>pre post. toLowerCase E (String E (get_prop r (column f)))
                          = pre @ toLowerCase E (fvalue f) @ post)"
  using assms by (simp add: filter_matches_def str_includes_iff)

theorem contains_lower_cased_substring_witness:
  "operator \<lparr> column = ''name'', fvalue = ''LIC'', operator = Contains \<rparr> = Contains
   \<and> toLowerCase ascii_engine (String ascii_engine (get_prop (hd (generateSampleData Users)) ''name''))
       = ''a'' @ toLowerCase ascii_engine ''LIC'' @ ''e''
   \<and> filter_matches ascii_engine (hd (generateSampleData Users))
        \<lparr> column = ''name'', fvalue = ''LIC'', operator = Contains \<rparr>"
proof -
  let ?alice = "hd (generateSampleData Users)"
  let ?f = "\<lparr> column = ''name'', fvalue = ''LIC'', operator = Contains \<rparr>"
  have op: "operator ?f = Contains" by simp
  have split: "toLowerCase ascii_engine (String ascii_engine (get_prop ?alice (column ?f)))
       = ''a'' @ toLowerCase ascii_engine (fvalue ?f) @ ''e''"
    by code_simp
  then have "\<exists>pre post. toLowerCase ascii_engine (String ascii_engine (get_prop ?alice (column ?f)))
       = pre @ toLowerCase ascii_engine (fvalue ?f) @ post"
    by blast
  then have "filter_matches ascii_engine ?alice ?f"
    using contains_lower_cased_substring [OF op, of ascii_engine ?alice] by blast
  then show ?thesis using split by simp
qed

text \<open>
  C7, as the specification has it, fails: the filter value \<open>alice\<close> selects the record
  whose name is \<open>Alice\<close>, although \<open>alice\<close> is not a substring of \<open>Alice\<close> when case
  counts (\<open>str_includes\<close> is the case-sensitive substring test, see \<open>str_includes_iff\<close>).
\<close>

theorem contains_case_sensitive_counterexample:
  "filter_matches ascii_engine [(''name'', JString ''Alice'')]
     \<lparr> column = ''name'', fvalue = ''alice'', operator = Contains \<rparr>
   \<and> \<not> str_includes (String ascii_engine (get_prop [(''name'', JString ''Alice'')] ''name''))
          ''alice''"
proof -
  have yes: "filter_matches ascii_engine [(''name'', JString ''Alice'')]
         \<lparr> column = ''name'', fvalue = ''alice'', operator = Contains \<rparr>"
    by code_simp
  have no: "\<not> str_includes (String ascii_engine (get_prop [(''name'', JString ''Alice'')] ''name''))
          ''alice''"
    by (simp add: get_prop_def)
  from yes no show ?thesis by (rule conjI)
qed

section \<open>The derived schema\<close>

text \<open>
  C5, as the specification has it, fails: \<open>availableColumns\<close> reads the first record
  only, so a column that appears in a later record alone is not listed.
\<close>

theorem availableColumns_counterexample:
  "set (availableColumns ragged) \<noteq> column_names (transformedData ragged)"
proof
  assume eq: "set (availableColumns ragged) = column_names (transformedData ragged)"
  have "''b'' \<in> column_names (transformedData ragged)"
    by (simp add: ragged_def column_names_def Object_keys_def)
  then have "''b'' \<in> set (availableColumns ragged)"
    unfolding eq .
  then show False
    by (simp add: ragged_def availableColumns_def Object_keys_def)
qed

text \<open>
  C5, as the code has it. \<open>availableColumns\<close> is the list of the keys of the first
  record of \<open>transformedData\<close> (empty for an empty table): these are column names of the
  table, and they are all of them when no later record has a column the first one
  lacks. \<open>numericColumns\<close> is the list of exactly those keys of the first record of
  \<open>originalData\<close> whose value in that record is a number.
\<close>

theorem schema_from_first_record:
  "set (availableColumns state) \<subseteq> column_names (transformedData state)
   \<and> (transformedData state = [] \<longrightarrow> availableColumns state = [])
   \<and> (transformedData state = first # rest \<longrightarrow> availableColumns state = Object_keys first)
   \<and> (transformedData state = first # rest
        \<and> (\<forall>r \<in> set rest. set (Object_keys r) \<subseteq> set (Object_keys first))
      \<longrightarrow> set (availableColumns state) = column_names (transformedData state))
   \<and> (originalData state = [] \<longrightarrow> numericColumns state = [])
   \<and> (originalData state = first' # rest'
      \<longrightarrow> numericColumns state
           = filter (\<lambda>k. typeof (get_prop first' k) = TNumber) (Object_keys first'))"
proof -
  have sub: "set (availableColumns state) \<subseteq> column_names (transformedData state)"
    by (cases "transformedData state") (simp_all add: availableColumns_def column_names_def)
  have all: "set (availableColumns state) = column_names (transformedData state)"
    if "transformedData state = first # rest"
      and "\<forall>r \<in> set rest. set (Object_keys r) \<subseteq> set (Object_keys first)"
    using that by (auto simp: availableColumns_def column_names_def)
  show ?thesis
    using sub all by (simp add: availableColumns_def numericColumns_def)
qed

theorem schema_from_first_record_witness:
  "transformedData (handleLoadSample Users initialState)
     = hd (generateSampleData Users) # tl (generateSampleData Users)
   \<and> originalData (handleLoadSample Users initialState)
     = hd (generateSampleData Users) # tl (generateSampleData Users)
   \<and> list_all (\<lambda>r. set (Object_keys r) \<subseteq> set (Object_keys (hd (generateSampleData Users))))
        (tl (generateSampleData Users))
   \<and> availableColumns (handleLoadSample Users initialState) = [''name'', ''age'', ''city'', ''score'']
   \<and> set (availableColumns (handleLoadSample Users initialState))
       = column_names (transformedData (handleLoadSample Users initialState))
   \<and> numericColumns (handleLoadSample Users initialState) = [''age'', ''score'']"
proof -
  let ?s = "handleLoadSample Users initialState"
  let ?first = "hd (generateSampleData Users)"
  let ?rest = "tl (generateSampleData Users)"
  have td: "transformedData ?s = ?first # ?rest"
    by (simp add: handleLoadSample_def Let_def)
  have od: "originalData ?s = ?first # ?rest"
    by (simp add: handleLoadSample_def Let_def)
  have same: "\<forall>r \<in> set ?rest. set (Object_keys r) \<subseteq> set (Object_keys ?first)"
    by (simp add: Object_keys_def)
  have same': "list_all (\<lambda>r. set (Object_keys r) \<subseteq> set (Object_keys ?first)) ?rest"
    unfolding list_all_iff by (rule same)
  note facts = schema_from_first_record [of ?s ?first ?rest ?first ?rest]
  have "availableColumns ?s = Object_keys ?first"
    by (rule facts [THEN conjunct2, THEN conjunct2, THEN conjunct1, THEN mp, OF td])
  then have cols: "availableColumns ?s = [''name'', ''age'', ''city'', ''score'']"
    by (simp add: Object_keys_def)
  have all: "set (availableColumns ?s) = column_names (transformedData ?s)"
    by (rule facts [THEN conjunct2, THEN conjunct2, THEN conjunct2, THEN conjunct1, THEN mp,
          OF conjI [OF td same]])
  have "numericColumns ?s
          = filter (\<lambda>k. typeof (get_prop ?first k) = TNumber) (Object_keys ?first)"
    by (rule facts [THEN conjunct2, THEN conjunct2, THEN conjunct2, THEN conjunct2,
          THEN conjunct2, THEN mp, OF od])
  then have nums: "numericColumns ?s = [''age'', ''score'']"
    by (simp add: Object_keys_def get_prop_def num_def)
  show ?thesis
    by (intro conjI; fact)
qed

section \<open>The request that is posted\<close>

text \<open>
  C9. For every executed transformation: whenever \<open>parameters.pivot_columns\<close> is set,
  that is, passes the test \<open>if (apiParameters.pivot_columns)\<close> (for the declared type, a
  string that is not empty), the request that is posted has its value under the key
  \<open>columns\<close> and has no key \<open>pivot_columns\<close>. No request carries a set value under
  \<open>pivot_columns\<close>: the only thing that can stay there is the empty string of a
  selection that was cleared.
\<close>

theorem pivot_column_posted_as_columns:
  assumes "handleExecuteTransformation transformData dashboard = (Some request, dashboard')"
  shows "(truthy (parameters dashboard ''pivot_columns'')
            \<longrightarrow> req_parameters request ''columns'' = parameters dashboard ''pivot_columns''
                \<and> req_parameters request ''pivot_columns'' = None)
         \<and> (parameters dashboard ''pivot_columns'' = Some (JsonString c) \<and> c \<noteq> []
            \<longrightarrow> req_parameters request ''columns'' = Some (JsonString c)
                \<and> req_parameters request ''pivot_columns'' = None)
         \<and> \<not> truthy (req_parameters request ''pivot_columns'')"
  using assms
  by (auto simp: handleExecuteTransformation_def Let_def split: if_splits option.splits)

theorem pivot_column_posted_as_columns_witness:
  "handleExecuteTransformation (\<lambda>request. None) sales_pivot
     = (Some \<lparr> req_data = generateSampleData Sales, req_transformation_type = ''pivot'',
               req_parameters = [''index'' \<mapsto> JsonString ''region'',
                                 ''values'' \<mapsto> JsonString ''sales'',
                                 ''columns'' \<mapsto> JsonString ''product''] \<rparr>, sales_pivot)
   \<and> parameters sales_pivot ''pivot_columns'' = Some (JsonString ''product'')
   \<and> truthy (parameters sales_pivot ''pivot_columns'')
   \<and> req_parameters \<lparr> req_data = generateSampleData Sales, req_transformation_type = ''pivot'',
               req_parameters = [''index'' \<mapsto> JsonString ''region'',
                                 ''values'' \<mapsto> JsonString ''sales'',
                                 ''columns'' \<mapsto> JsonString ''product''] \<rparr> ''columns''
       = Some (JsonString ''product'')"
proof -
  let ?rq = "\<lparr> req_data = generateSampleData Sales, req_transformation_type = ''pivot'',
               req_parameters = [''index'' \<mapsto> JsonString ''region'',
                                 ''values'' \<mapsto> JsonString ''sales'',
                                 ''columns'' \<mapsto> JsonString ''product''] \<rparr>"
  have piv: "parameters sales_pivot ''pivot_columns'' = Some (JsonString ''product'')"
    by (simp add: sales_pivot_def handleLoadSample_def initialState_def)
  have run: "handleExecuteTransformation (\<lambda>request. None) sales_pivot = (Some ?rq, sales_pivot)"
    by (auto simp: handleExecuteTransformation_def sales_pivot_def handleLoadSample_def
        initialState_def Let_def fun_eq_iff)
  have "req_parameters ?rq ''columns'' = Some (JsonString ''product'')"
    using pivot_column_posted_as_columns [OF run, of "''product''"] piv by simp
  with run piv show ?thesis by simp
qed

section \<open>The aggregator\<close>

lemma keys_add_to_bucket:
  "map fst (add_to_bucket k r bs)
     = (if k \<in> set (map fst bs) then map fst bs else map fst bs @ [k])"
  by (induction bs) (auto simp: rev_image_eqI)

lemma keys_foldl_buckets:
  "map fst (foldl (\<lambda>bs r. add_to_bucket (f r) r bs) bs0 t) = first_seen (map fst bs0) (map f t)"
  by (induction t arbitrary: bs0) (simp_all add: keys_add_to_bucket)

lemma keys_buckets: "map fst (buckets g t) = first_seen [] (map (group_key g) t)"
  by (simp add: buckets_def keys_foldl_buckets)

lemma set_first_seen: "set (first_seen acc ks) = set acc \<union> set ks"
  by (induction ks arbitrary: acc) auto

lemma length_bucket_keys:
  assumes "(k, rs) \<in> set (buckets g t)"
  shows "length k = length g"
proof -
  from assms have "k \<in> set (map fst (buckets g t))" by force
  then have "k \<in> set (map (group_key g) t)"
    by (simp add: keys_buckets set_first_seen)
  then show ?thesis by (auto simp: group_key_def)
qed

lemma group_key_emitted:
  assumes "distinct g" and "length k = length g"
  shows "group_key g (zip g k @ row) = k"
proof (rule nth_equalityI)
  show "length (group_key g (zip g k @ row)) = length k"
    using assms(2) by (simp add: group_key_def)
next
  fix i assume "i < length (group_key g (zip g k @ row))"
  then have i: "i < length g" by (simp add: group_key_def)
  have "map_of (zip g k) (g ! i) = Some (k ! i)"
    using i assms by (simp add: map_of_zip_nth)
  then show "group_key g (zip g k @ row) ! i = k ! i"
    using i by (simp add: group_key_def cell_def map_add_def)
qed

lemma emit_buckets_keys:
  "emit_buckets g aggs bs = Inr out \<Longrightarrow> distinct g
   \<Longrightarrow> (\<And>k rs. (k, rs) \<in> set bs \<Longrightarrow> length k = length g)
   \<Longrightarrow> map (group_key g) out = map fst bs"
proof (induction bs arbitrary: out)
  case Nil
  then show ?case by simp
next
  case (Cons b bs)
  obtain k rs where b: "b = (k, rs)" by (cases b)
  from Cons.prems(1) b obtain row rows where
    rows: "emit_buckets g aggs bs = Inr rows" and out: "out = (zip g k @ row) # rows"
    by (auto split: sum.splits)
  have "length k = length g" using Cons.prems(3) [of k rs] b by simp
  then have "group_key g (zip g k @ row) = k"
    using Cons.prems(2) by (rule group_key_emitted [rotated])
  moreover have "map (group_key g) rows = map fst bs"
  proof (rule Cons.IH [OF rows Cons.prems(2)])
    fix k' rs' assume "(k', rs') \<in> set bs"
    then show "length k' = length g" using Cons.prems(3) [of k' rs'] by simp
  qed
  ultimately show ?case using out b by simp
qed

lemma aggregate_first_seen:
  assumes "distinct group_by" and "aggregate t group_by aggregations = Inr out"
  shows "map (group_key group_by) out = first_seen [] (map (group_key group_by) t)"
proof -
  from assms(2) have "emit_buckets group_by aggregations (buckets group_by t) = Inr out"
    by (auto simp: aggregate_def split: if_splits)
  then have "map (group_key group_by) out = map fst (buckets group_by t)"
    using assms(1) length_bucket_keys by (rule emit_buckets_keys)
  then show ?thesis by (simp add: keys_buckets)
qed

text \<open>
  C3. Aggregating the table of the four sales records with \<open>group_by = [region]\<close> and
  \<open>aggregations = {sales: sum}\<close> gives exactly the two records \<open>North, 250\<close> and
  \<open>South, 320\<close>; and for every aggregation that succeeds, the group keys of the output
  rows are the distinct group keys of the input in first-seen order.
\<close>

theorem aggregate_sales_by_region:
  "aggregate sales_by_region [''region''] [(''sales'', StatSum)]
     = Inr [[(''region'', Str ''North''), (''sales'', Num 250)],
            [(''region'', Str ''South''), (''sales'', Num 320)]]
   \<and> (distinct group_by \<and> aggregate t group_by aggregations = Inr out
      \<longrightarrow> map (group_key group_by) out = first_seen [] (map (group_key group_by) t))"
proof -
  have "aggregate sales_by_region [''region''] [(''sales'', StatSum)]
     = Inr [[(''region'', Str ''North''), (''sales'', Num 250)],
            [(''region'', Str ''South''), (''sales'', Num 320)]]"
    by (simp add: aggregate_def sales_by_region_def column_exists_def buckets_def
        group_key_def cell_def)
  then show ?thesis using aggregate_first_seen by blast
qed

theorem aggregate_sales_by_region_witness:
  "distinct [''region'']
   \<and> aggregate sales_by_region [''region''] [(''sales'', StatSum)]
     = Inr [[(''region'', Str ''North''), (''sales'', Num 250)],
            [(''region'', Str ''South''), (''sales'', Num 320)]]
   \<and> map (group_key [''region''])
         [[(''region'', Str ''North''), (''sales'', Num 250)],
          [(''region'', Str ''South''), (''sales'', Num 320)]]
       = first_seen [] (map (group_key [''region'']) sales_by_region)
   \<and> first_seen [] (map (group_key [''region'']) sales_by_region)
       = [[Str ''North''], [Str ''South'']]"
proof -
  let ?out = "[[(''region'', Str ''North''), (''sales'', Num 250)],
               [(''region'', Str ''South''), (''sales'', Num 320)]]"
  note inst = aggregate_sales_by_region
    [of "[''region'']" sales_by_region "[(''sales'', StatSum)]" ?out]
  have d: "distinct [''region'']" by simp
  have run: "aggregate sales_by_region [''region''] [(''sales'', StatSum)] = Inr ?out"
    by (rule inst [THEN conjunct1])
  have keys: "map (group_key [''region'']) ?out
       = first_seen [] (map (group_key [''region'']) sales_by_region)"
    by (rule inst [THEN conjunct2, THEN mp, OF conjI [OF d run]])
  have seen: "first_seen [] (map (group_key [''region'']) sales_by_region)
       = [[Str ''North''], [Str ''South'']]"
    by (simp add: sales_by_region_def group_key_def cell_def)
  show ?thesis
    by (intro conjI; fact)
qed

section \<open>The normalizer\<close>

lemma fold_min_Min: "fold min xs (x::real) = Min (set (x # xs))"
  by (rule Min.set_eq_fold [symmetric])

lemma fold_max_Max: "fold max xs (x::real) = Max (set (x # xs))"
  by (rule Max.set_eq_fold [symmetric])

lemma column_range_Some:
  assumes "numeric_values (map (\<lambda>r. cell r c) t) \<noteq> []"
  shows "column_range t c
           = Some (Min (set (numeric_values (map (\<lambda>r. cell r c) t))),
                   Max (set (numeric_values (map (\<lambda>r. cell r c) t))))"
  using assms
  by (cases "numeric_values (map (\<lambda>r. cell r c) t)")
     (simp_all add: column_range_def fold_min_Min fold_max_Max)

lemma numeric_values_mem: "Num x \<in> set vs \<Longrightarrow> x \<in> set (numeric_values vs)"
  by (induction vs rule: numeric_values.induct) auto

lemma cell_rescaled:
  assumes "cell r c = Num x" and "c \<in> set columns" and "column_range t c = Some bounds"
  shows "cell (map (rescale_cell t columns) r) c = Num (min_max bounds x)"
  using assms
proof (induction r)
  case Nil
  then show ?case by (simp add: cell_def)
next
  case (Cons kv r)
  obtain k v where kv: "kv = (k, v)" by (cases kv)
  show ?case
  proof (cases "k = c")
    case True
    with Cons.prems kv have "v = Num x" by (simp add: cell_def)
    with True kv Cons.prems show ?thesis by (simp add: cell_def rescale_cell_def)
  next
    case False
    with Cons.prems kv have "cell r c = Num x" by (simp add: cell_def)
    then have "cell (map (rescale_cell t columns) r) c = Num (min_max bounds x)"
      using Cons.IH Cons.prems by simp
    moreover have "fst (rescale_cell t columns (k, v)) = k"
      by (cases v) (simp_all add: rescale_cell_def split: option.splits)
    ultimately show ?thesis using False kv
      by (cases "rescale_cell t columns (k, v)") (simp add: cell_def)
  qed
qed

text \<open>
  C4. For every table, every requested column \<open>c\<close> and every row whose value in \<open>c\<close> is
  a number \<open>x\<close>, min-max normalization puts \<open>(x - min) / (max - min)\<close> there, where
  \<open>min\<close> and \<open>max\<close> are taken over the numeric values of the column, and \<open>0\<close> when
  \<open>max = min\<close>. Normalizing the column \<open>10, 20, 30\<close> gives \<open>0, 1/2, 1\<close>.
\<close>

theorem min_max_normalization:
  "(normalize_min_max t columns = Inr out \<and> c \<in> set columns \<and> i < length t
      \<and> cell (t ! i) c = Num x
    \<longrightarrow> cell (out ! i) c =
          Num (if Max (set (numeric_values (map (\<lambda>r. cell r c) t)))
                    = Min (set (numeric_values (map (\<lambda>r. cell r c) t)))
               then 0
               else (x - Min (set (numeric_values (map (\<lambda>r. cell r c) t))))
                    / (Max (set (numeric_values (map (\<lambda>r. cell r c) t)))
                       - Min (set (numeric_values (map (\<lambda>r. cell r c) t))))))
   \<and> normalize_min_max [[(''v'', Num 10)], [(''v'', Num 20)], [(''v'', Num 30)]] [''v'']
       = Inr [[(''v'', Num 0)], [(''v'', Num (1 / 2))], [(''v'', Num 1)]]"
proof (intro conjI impI)
  assume a: "normalize_min_max t columns = Inr out \<and> c \<in> set columns \<and> i < length t
      \<and> cell (t ! i) c = Num x"
  let ?xs = "numeric_values (map (\<lambda>r. cell r c) t)"
  from a have out: "out = map (map (rescale_cell t columns)) t"
    by (auto simp: normalize_min_max_def split: if_splits)
  from a have "Num x \<in> set (map (\<lambda>r. cell r c) t)"
    by (metis (mono_tags, lifting) image_eqI list.set_map nth_mem)
  then have "?xs \<noteq> []"
    using numeric_values_mem by fastforce
  then have range: "column_range t c = Some (Min (set ?xs), Max (set ?xs))"
    by (rule column_range_Some)
  have "cell (out ! i) c = cell (map (rescale_cell t columns) (t ! i)) c"
    using a out by simp
  also have "\<dots> = Num (min_max (Min (set ?xs), Max (set ?xs)) x)"
    using a range by (intro cell_rescaled) simp_all
  finally show "cell (out ! i) c =
          Num (if Max (set ?xs) = Min (set ?xs) then 0
               else (x - Min (set ?xs)) / (Max (set ?xs) - Min (set ?xs)))"
    by (simp add: min_max_def)
next
  show "normalize_min_max [[(''v'', Num 10)], [(''v'', Num 20)], [(''v'', Num 30)]] [''v'']
       = Inr [[(''v'', Num 0)], [(''v'', Num (1 / 2))], [(''v'', Num 1)]]"
    by (simp add: normalize_min_max_def column_range_def cell_def rescale_cell_def min_max_def)
qed

theorem min_max_normalization_witness:
  "normalize_min_max [[(''v'', Num 10)], [(''v'', Num 20)], [(''v'', Num 30)]] [''v'']
     = Inr [[(''v'', Num 0)], [(''v'', Num (1 / 2))], [(''v'', Num 1)]]
   \<and> ''v'' \<in> set [''v'']
   \<and> (1::nat) < length [[(''v'', Num 10)], [(''v'', Num 20)], [(''v'', Num 30)]]
   \<and> cell ([[(''v'', Num 10)], [(''v'', Num 20)], [(''v'', Num 30)]] ! 1) ''v'' = Num 20
   \<and> cell ([[(''v'', Num 0)], [(''v'', Num (1 / 2))], [(''v'', Num 1)]] ! 1) ''v''
       = Num ((20 - 10) / (30 - 10))
   \<and> normalize_min_max [[(''v'', Num 5)], [(''v'', Num 5)]] [''v'']
       = Inr [[(''v'', Num 0)], [(''v'', Num 0)]]"
proof -
  let ?t = "[[(''v'', Num 10)], [(''v'', Num 20)], [(''v'', Num 30)]]"
  let ?out = "[[(''v'', Num 0)], [(''v'', Num (1 / 2))], [(''v'', Num 1)]]"
  note inst = min_max_normalization [of ?t "[''v'']" ?out "''v''" 1 20]
  have run: "normalize_min_max ?t [''v''] = Inr ?out"
    by (rule inst [THEN conjunct2])
  have col: "''v'' \<in> set [''v'']" by simp
  have idx: "(1::nat) < length ?t" by simp
  have val: "cell (?t ! 1) ''v'' = Num 20" by (simp add: cell_def)
  have "cell (?out ! 1) ''v'' =
          Num (if Max (set (numeric_values (map (\<lambda>r. cell r ''v'') ?t)))
                    = Min (set (numeric_values (map (\<lambda>r. cell r ''v'') ?t)))
               then 0
               else (20 - Min (set (numeric_values (map (\<lambda>r. cell r ''v'') ?t))))
                    / (Max (set (numeric_values (map (\<lambda>r. cell r ''v'') ?t)))
                       - Min (set (numeric_values (map (\<lambda>r. cell r ''v'') ?t)))))"
    by (rule inst [THEN conjunct1, THEN mp, OF conjI [OF run conjI [OF col conjI [OF idx val]]]])
  then have res: "cell (?out ! 1) ''v'' = Num ((20 - 10) / (30 - 10))"
    by (simp add: cell_def)
  have const: "normalize_min_max [[(''v'', Num 5)], [(''v'', Num 5)]] [''v'']
       = Inr [[(''v'', Num 0)], [(''v'', Num 0)]]"
    by (simp add: normalize_min_max_def column_range_def cell_def rescale_cell_def min_max_def)
  show ?thesis
    by (intro conjI; fact)
qed

section \<open>The dispatcher, the batch runner and the counts on the screen\<close>

lemma batch_loop_map: "batch_loop route rqs results = results @ map (execute route) rqs"
  by (induction rqs arbitrary: results) simp_all

lemma batch_execute_map: "batch_execute route rqs = map (execute route) rqs"
  by (simp add: batch_execute_def batch_loop_map)

text \<open>
  C8. For every list of transformation requests, batch execution returns a list of the
  same length, and the entry at every index is what the Dispatcher gives for the request
  at that index, a result or an error: the entries are in the order of the requests,
  and a failure of one request leaves the entries of the others as they are. The client
  call \<open>batchTransform\<close> returns the list the server sends, unchanged.
\<close>

theorem batch_execute_same_length_and_order:
  "length (batch_execute route rqs) = length rqs
   \<and> (\<forall>i < length rqs. batch_execute route rqs ! i = execute route (rqs ! i))
   \<and> batchTransform (\<lambda>requests. Inr (batch_execute route requests)) rqs
       = Inr (batch_execute route rqs)"
  by (simp add: batch_execute_map batchTransform_def)

theorem batch_execute_same_length_and_order_witness:
  "batch_execute route_aggregate [sum_sales_request, no_group_request, sum_sales_request]
     = [execute route_aggregate sum_sales_request, Inl ValidationError,
        execute route_aggregate sum_sales_request]
   \<and> execute route_aggregate sum_sales_request
     = Inr \<lparr> result_data = [[(''region'', Str ''North''), (''sales'', Num 250)],
                            [(''region'', Str ''South''), (''sales'', Num 320)]],
            result_metadata = \<lparr> original_rows = 4, transformed_rows = 2 \<rparr> \<rparr>
   \<and> length (batch_execute route_aggregate
        [sum_sales_request, no_group_request, sum_sales_request]) = 3
   \<and> batch_execute route_aggregate [sum_sales_request, no_group_request, sum_sales_request] ! 1
     = execute route_aggregate no_group_request
   \<and> batch_execute route_aggregate [sum_sales_request, no_group_request, sum_sales_request] ! 2
     = execute route_aggregate sum_sales_request"
proof -
  let ?rqs = "[sum_sales_request, no_group_request, sum_sales_request]"
  note inst = batch_execute_same_length_and_order [of route_aggregate ?rqs]
  have len: "length (batch_execute route_aggregate ?rqs) = 3"
    using inst [THEN conjunct1] by simp
  have at: "\<forall>i < length ?rqs. batch_execute route_aggregate ?rqs ! i
              = execute route_aggregate (?rqs ! i)"
    by (rule inst [THEN conjunct2, THEN conjunct1])
  have at1: "batch_execute route_aggregate ?rqs ! 1 = execute route_aggregate no_group_request"
    using at [THEN spec, of 1] by simp
  have at2: "batch_execute route_aggregate ?rqs ! 2 = execute route_aggregate sum_sales_request"
    using at [THEN spec, of 2] by simp
  have bad: "execute route_aggregate no_group_request = Inl ValidationError"
    by (simp add: execute_def known_types_def no_group_request_def route_aggregate_def
        aggregate_def sales_by_region_def)
  have good: "execute route_aggregate sum_sales_request
     = Inr \<lparr> result_data = [[(''region'', Str ''North''), (''sales'', Num 250)],
                            [(''region'', Str ''South''), (''sales'', Num 320)]],
            result_metadata = \<lparr> original_rows = 4, transformed_rows = 2 \<rparr> \<rparr>"
    by (simp add: execute_def known_types_def sum_sales_request_def route_aggregate_def
        aggregate_def sales_by_region_def column_exists_def buckets_def group_key_def cell_def)
  have whole: "batch_execute route_aggregate ?rqs
     = [execute route_aggregate sum_sales_request, Inl ValidationError,
        execute route_aggregate sum_sales_request]"
    by (simp add: batch_execute_def bad)
  show ?thesis
    by (intro conjI; fact)
qed

text \<open>
  C2. For every transformation request that succeeds, the counters of the result
  satisfy \<open>transformed_rows = len(result.data)\<close> and \<open>original_rows = len(request.data)\<close>.
  On the screen, the counts handed to \<open>MetadataPanel\<close> are \<open>originalData.length\<close> and
  \<open>transformedData.length\<close>; after a transformation was executed and answered, these are
  the length of the data of the request and the length of the data of the response.
\<close>

theorem row_counts:
  "(execute route rq = Inr rs
      \<longrightarrow> transformed_rows (result_metadata rs) = length (result_data rs)
          \<and> original_rows (result_metadata rs) = length (request_data rq))
   \<and> (metadataPanel dashboard = Some props
      \<longrightarrow> originalCount props = length (originalData dashboard)
          \<and> transformedCount props = length (transformedData dashboard))
   \<and> (handleExecuteTransformation transformData dashboard = (Some request, dashboard')
        \<and> transformData request = Some response \<and> metadataPanel dashboard' = Some props'
      \<longrightarrow> originalCount props' = length (req_data request)
          \<and> transformedCount props' = length (res_data response))"
proof (intro conjI impI)
  assume "execute route rq = Inr rs"
  then have rs: "rs = \<lparr> result_data = [],
                        result_metadata = \<lparr> original_rows = 0, transformed_rows = 0 \<rparr> \<rparr>
                  \<and> request_data rq = []
               \<or> (\<exists>t. route rq = Inr t
                     \<and> rs = \<lparr> result_data = t,
                              result_metadata = \<lparr> original_rows = length (request_data rq),
                                                  transformed_rows = length t \<rparr> \<rparr>)"
    by (auto simp: execute_def split: if_splits sum.splits)
  from rs show "transformed_rows (result_metadata rs) = length (result_data rs)" by auto
  from rs show "original_rows (result_metadata rs) = length (request_data rq)" by auto
next
  assume "metadataPanel dashboard = Some props"
  then have props: "props = \<lparr> metadata = [], processingTime = Finite 0,
                              originalCount = length (originalData dashboard),
                              transformedCount = length (transformedData dashboard) \<rparr>"
    by (auto simp: metadataPanel_def split: if_splits)
  from props show "originalCount props = length (originalData dashboard)" by simp
  from props show "transformedCount props = length (transformedData dashboard)" by simp
next
  assume a: "handleExecuteTransformation transformData dashboard = (Some request, dashboard')
        \<and> transformData request = Some response \<and> metadataPanel dashboard' = Some props'"
  then have rq: "req_data request = originalData dashboard"
    by (auto simp: handleExecuteTransformation_def Let_def split: if_splits option.splits)
  from a have st: "dashboard' = dashboard\<lparr> transformedData := res_data response \<rparr>"
    by (auto simp: handleExecuteTransformation_def Let_def split: if_splits option.splits)
  from a have props: "props' = \<lparr> metadata = [], processingTime = Finite 0,
                              originalCount = length (originalData dashboard'),
                              transformedCount = length (transformedData dashboard') \<rparr>"
    by (auto simp: metadataPanel_def split: if_splits)
  from props st rq show "originalCount props' = length (req_data request)" by simp
  from props st show "transformedCount props' = length (res_data response)" by simp
qed

theorem row_counts_witness:
  "execute route_aggregate sum_sales_request = Inr sum_sales_result
   \<and> transformed_rows (result_metadata sum_sales_result) = length (result_data sum_sales_result)
   \<and> original_rows (result_metadata sum_sales_result) = length (request_data sum_sales_request)
   \<and> metadataPanel sales_aggregate
       = Some \<lparr> metadata = [], processingTime = Finite 0, originalCount = 8,
                 transformedCount = 8 \<rparr>
   \<and> length (originalData sales_aggregate) = 8
   \<and> length (transformedData sales_aggregate) = 8
   \<and> handleExecuteTransformation aggregated_response sales_aggregate
       = (Some sales_aggregate_request,
          sales_aggregate\<lparr> transformedData := res_data aggregated_sales \<rparr>)
   \<and> aggregated_response sales_aggregate_request = Some aggregated_sales
   \<and> metadataPanel (sales_aggregate\<lparr> transformedData := res_data aggregated_sales \<rparr>)
       = Some \<lparr> metadata = [], processingTime = Finite 0, originalCount = 8,
                 transformedCount = 2 \<rparr>
   \<and> length (req_data sales_aggregate_request) = 8
   \<and> length (res_data aggregated_sales) = 2"
proof -
  let ?before = "\<lparr> metadata = [], processingTime = Finite 0, originalCount = 8,
                   transformedCount = 8 \<rparr>"
  let ?after = "\<lparr> metadata = [], processingTime = Finite 0, originalCount = 8,
                  transformedCount = 2 \<rparr>"
  let ?state = "sales_aggregate\<lparr> transformedData := res_data aggregated_sales \<rparr>"
  note inst = row_counts [of route_aggregate sum_sales_request sum_sales_result
      sales_aggregate ?before aggregated_response sales_aggregate_request
      ?state aggregated_sales ?after]
  have run: "execute route_aggregate sum_sales_request = Inr sum_sales_result"
    by (simp add: execute_def known_types_def sum_sales_request_def route_aggregate_def
        aggregate_def sales_by_region_def column_exists_def buckets_def group_key_def cell_def
        sum_sales_result_def)
  have counters:
    "transformed_rows (result_metadata sum_sales_result) = length (result_data sum_sales_result)
     \<and> original_rows (result_metadata sum_sales_result) = length (request_data sum_sales_request)"
    by (rule inst [THEN conjunct1, THEN mp, OF run])
  have panel: "metadataPanel sales_aggregate = Some ?before"
    by (simp add: metadataPanel_def sales_aggregate_def handleLoadSample_def Let_def)
  have shown: "originalCount ?before = length (originalData sales_aggregate)
     \<and> transformedCount ?before = length (transformedData sales_aggregate)"
    by (rule inst [THEN conjunct2, THEN conjunct1, THEN mp, OF panel])
  have posted: "handleExecuteTransformation aggregated_response sales_aggregate
       = (Some sales_aggregate_request, ?state)"
    by (simp add: handleExecuteTransformation_def sales_aggregate_def handleLoadSample_def
        initialState_def Let_def aggregated_response_def sales_aggregate_request_def)
  have answered: "aggregated_response sales_aggregate_request = Some aggregated_sales"
    by (simp add: aggregated_response_def)
  have panel': "metadataPanel ?state = Some ?after"
    by (simp add: metadataPanel_def sales_aggregate_def handleLoadSample_def Let_def
        aggregated_sales_def)
  have shown': "originalCount ?after = length (req_data sales_aggregate_request)
     \<and> transformedCount ?after = length (res_data aggregated_sales)"
    by (rule inst [THEN conjunct2, THEN conjunct2, THEN mp,
          OF conjI [OF posted conjI [OF answered panel']]])
  show ?thesis
    using run counters panel shown posted answered panel' shown' by simp
qed

end
